theory Spec2Isabelle
  imports Main "HOL-Library.AList"
begin

section \<open>Python strings\<close>

text \<open>
  A Python \<open>str\<close> read from the page is modelled as a \<open>string\<close> whose characters are
  the code points below 256.  On that range \<open>str.lower()\<close> maps \<open>A..Z\<close> and the
  Latin-1 capitals \<open>0xC0..0xDE\<close> (without the multiplication sign \<open>0xD7\<close>) to the
  character 32 places later and leaves every other character alone.
\<close>

definition lower_char :: "char \<Rightarrow> char" where
  "lower_char c =
     (let n = (of_char c :: nat) in
      if 65 \<le> n \<and> n \<le> 90 then char_of (n + 32)
      else if 192 \<le> n \<and> n \<le> 222 \<and> n \<noteq> 215 then char_of (n + 32)
      else c)"

definition lower :: "string \<Rightarrow> string" where
  "lower s = map lower_char s"

text \<open>\<open>startswith s sub\<close> is \<open>s.startswith(sub)\<close>; \<open>py_in sub s\<close> is \<open>sub in s\<close>.\<close>

fun startswith :: "string \<Rightarrow> string \<Rightarrow> bool" where
  "startswith s [] = True"
| "startswith [] (c # cs) = False"
| "startswith (x # xs) (c # cs) = (x = c \<and> startswith xs cs)"

fun py_in :: "string \<Rightarrow> string \<Rightarrow> bool" where
  "py_in sub [] = (sub = [])"
| "py_in sub (x # xs) = (startswith (x # xs) sub \<or> py_in sub xs)"

text \<open>\<open>str(n)\<close> for an integer: decimal digits, a minus sign for negatives.\<close>

fun str_nat :: "nat \<Rightarrow> string" where
  "str_nat n =
     (if n < 10 then [char_of (48 + n)]
      else str_nat (n div 10) @ [char_of (48 + n mod 10)])"

definition str_int :: "int \<Rightarrow> string" where
  "str_int i = (if i < 0 then CHR ''-'' # str_nat (nat (- i)) else str_nat (nat i))"

text \<open>\<open>repr\<close> of a string, on code points below 256.\<close>

definition hex_digit :: "nat \<Rightarrow> char" where
  "hex_digit d = (if d < 10 then char_of (48 + d) else char_of (87 + d))"

definition repr_char :: "char \<Rightarrow> char \<Rightarrow> string" where
  "repr_char q c =
     (let n = (of_char c :: nat) in
      if c = q \<or> c = CHR 0x5C then [CHR 0x5C, c]
      else if n = 9 then [CHR 0x5C, CHR ''t'']
      else if n = 10 then [CHR 0x5C, CHR ''n'']
      else if n = 13 then [CHR 0x5C, CHR ''r'']
      else if n < 32 \<or> n = 127 \<or> (128 \<le> n \<and> n \<le> 160) \<or> n = 173
        then [CHR 0x5C, CHR ''x'', hex_digit (n div 16), hex_digit (n mod 16)]
      else [c])"

definition repr_str :: "string \<Rightarrow> string" where
  "repr_str s =
     (let q = (if CHR 0x27 \<in> set s \<and> CHR 0x22 \<notin> set s then CHR 0x22 else CHR 0x27)
      in [q] @ concat (map (repr_char q) s) @ [q])"

section \<open>Exceptions\<close>

text \<open>
  \<open>exc\<close> are the instances of Python's \<open>Exception\<close> that the program can meet;
  \<open>base_exc\<close> adds the operator interrupt, which is a \<open>BaseException\<close> and is not
  caught by \<open>except Exception\<close>.  \<open>str_exc e\<close> is \<open>str(e)\<close>, the text that the
  f-strings of the program interpolate; for a \<open>KeyError\<close> it is the \<open>repr\<close> of the key.
\<close>

datatype exc =
    PlaywrightTimeoutError string
  | KeyError string
  | TypeError string
  | OtherException string

datatype base_exc = Exception exc | KeyboardInterrupt

fun str_exc :: "exc \<Rightarrow> string" where
  "str_exc (PlaywrightTimeoutError m) = m"
| "str_exc (KeyError k) = repr_str k"
| "str_exc (TypeError m) = m"
| "str_exc (OtherException m) = m"

section \<open>Output\<close>

datatype level = DEBUG | INFO | WARNING | ERROR

text \<open>
  What the program writes, in order: records handed to the logger and lines handed to
  \<open>print\<close> (as the bytes of their UTF-8 encoding, without the newline \<open>print\<close> adds).
  The logger is configured with the level \<open>INFO\<close>, so a record of level \<open>DEBUG\<close> is
  handed to it and reaches neither the log file nor the console.
\<close>

datatype event = Log level string | Print string

text \<open>
  A computation yields the output it produced and either the exception that ended it
  or its value.
\<close>

type_synonym 'a io = "event list \<times> (base_exc + 'a)"

definition io_return :: "'a \<Rightarrow> 'a io" where
  "io_return x = ([], Inr x)"

definition io_raise :: "base_exc \<Rightarrow> 'a io" where
  "io_raise e = ([], Inl e)"

definition io_bind :: "'a io \<Rightarrow> ('a \<Rightarrow> 'b io) \<Rightarrow> 'b io" where
  "io_bind m f =
     (case m of
        (out, Inl e) \<Rightarrow> (out, Inl e)
      | (out, Inr x) \<Rightarrow> (case f x of (out', r) \<Rightarrow> (out @ out', r)))"

definition io_log :: "level \<Rightarrow> string \<Rightarrow> unit io" where
  "io_log l m = ([Log l m], Inr ())"

definition io_print :: "string \<Rightarrow> unit io" where
  "io_print s = ([Print s], Inr ())"

text \<open>A call into the environment that returns nothing: it raises or it does not.\<close>

definition io_call :: "base_exc option \<Rightarrow> unit io" where
  "io_call r = (case r of None \<Rightarrow> ([], Inr ()) | Some e \<Rightarrow> ([], Inl e))"

text \<open>A call into the environment that returns a value or raises.\<close>

definition io_result :: "base_exc + 'a \<Rightarrow> 'a io" where
  "io_result r = ([], r)"

section \<open>Seat classification (the body of the loop over seats in fetch_seat_data)\<close>

text \<open>\<open>seat_counts = {"yellow": 0, "red": 0, "grey": 0}\<close>: a dictionary with three fixed keys.\<close>

record seat_counts =
  yellow :: int
  red :: int
  grey :: int

definition zero_counts :: seat_counts where
  "zero_counts = \<lparr>yellow = 0, red = 0, grey = 0\<rparr>"

text \<open>
  A seat element, seen through the two attribute reads the program makes:
  \<open>seat.get_attribute("fill")\<close> and \<open>seat.get_attribute("class")\<close>.  Each read raises
  or returns \<open>None\<close> or a string.
\<close>

record element =
  attr_fill :: "base_exc + string option"
  attr_class :: "base_exc + string option"

text \<open>Lines 115-127: the branch taken when \<open>fill_color\<close> is truthy.\<close>

definition count_fill :: "string \<Rightarrow> seat_counts \<Rightarrow> seat_counts" where
  "count_fill fill_color0 c =
     (let fill_color = lower fill_color0 in
      if py_in ''yellow'' fill_color \<or> py_in ''gold'' fill_color then c\<lparr>yellow := yellow c + 1\<rparr>
      else if py_in ''red'' fill_color \<or> py_in ''crimson'' fill_color then c\<lparr>red := red c + 1\<rparr>
      else if py_in ''grey'' fill_color \<or> py_in ''gray'' fill_color \<or> py_in ''silver'' fill_color
        then c\<lparr>grey := grey c + 1\<rparr>
      else if py_in ''green'' fill_color \<or> py_in ''blue'' fill_color then c\<lparr>yellow := yellow c + 1\<rparr>
      else c\<lparr>grey := grey c + 1\<rparr>)"

text \<open>Lines 130-137: the check of the class name, made for every seat.\<close>

definition count_class :: "string \<Rightarrow> seat_counts \<Rightarrow> seat_counts" where
  "count_class class_name0 c =
     (let class_name = lower class_name0 in
      if py_in ''available'' class_name \<or> py_in ''free'' class_name then
        (if py_in ''premium'' class_name \<or> py_in ''vip'' class_name then c\<lparr>red := red c + 1\<rparr>
         else c\<lparr>yellow := yellow c + 1\<rparr>)
      else if py_in ''sold'' class_name \<or> py_in ''taken'' class_name \<or> py_in ''occupied'' class_name
        then c\<lparr>grey := grey c + 1\<rparr>
      else c)"

text \<open>
  Lines 110-139, one pass of \<open>for seat in seats\<close> on the pair
  \<open>(seat_counts, total_seats_found)\<close>.  Both attributes are read before anything is
  counted, so a read that raises leaves the pair as it was.  \<open>if fill_color:\<close> is false
  for \<open>None\<close> and for the empty string; \<open>get_attribute("class") or ""\<close> turns \<open>None\<close>
  into the empty string.
\<close>

definition count_seat :: "element \<Rightarrow> seat_counts \<times> int \<Rightarrow> base_exc + seat_counts \<times> int" where
  "count_seat seat st =
     (case attr_fill seat of
        Inl e \<Rightarrow> Inl e
      | Inr fill_color \<Rightarrow>
          (case attr_class seat of
             Inl e \<Rightarrow> Inl e
           | Inr cls \<Rightarrow>
               (let class_name = (case cls of None \<Rightarrow> [] | Some s \<Rightarrow> s);
                    c1 = (case fill_color of
                            None \<Rightarrow> fst st
                          | Some f \<Rightarrow> if f = [] then fst st else count_fill f (fst st));
                    c2 = count_class class_name c1
                in Inr (c2, snd st + 1))))"

text \<open>
  The loop \<open>for seat in seats\<close>.  The counts are updated in place, so when a seat raises
  the updates made for the seats before it remain: the state is returned next to the
  exception.
\<close>

fun count_seats :: "element list \<Rightarrow> seat_counts \<times> int \<Rightarrow> (seat_counts \<times> int) \<times> base_exc option" where
  "count_seats [] st = (st, None)"
| "count_seats (seat # seats) st =
     (case count_seat seat st of
        Inl e \<Rightarrow> (st, Some e)
      | Inr st' \<Rightarrow> count_seats seats st')"

section \<open>Python values\<close>

text \<open>
  The values \<open>json.load\<close> can return and the program handles: \<open>None\<close>, booleans,
  integers, strings, lists, and dictionaries with string keys (in insertion order, keys
  distinct).  Floating-point numbers are left out.
\<close>

datatype pyval =
    PNone
  | PBool bool
  | PInt int
  | PStr string
  | PList "pyval list"
  | PDict "(string \<times> pyval) list"

fun py_repr :: "pyval \<Rightarrow> string"
  and repr_list :: "pyval list \<Rightarrow> string"
  and repr_dict :: "(string \<times> pyval) list \<Rightarrow> string" where
  "py_repr PNone = ''None''"
| "py_repr (PBool b) = (if b then ''True'' else ''False'')"
| "py_repr (PInt i) = str_int i"
| "py_repr (PStr s) = repr_str s"
| "py_repr (PList xs) = ''['' @ repr_list xs @ '']''"
| "py_repr (PDict kvs) = ''{'' @ repr_dict kvs @ ''}''"
| "repr_list [] = []"
| "repr_list [x] = py_repr x"
| "repr_list (x # y # ys) = py_repr x @ '', '' @ repr_list (y # ys)"
| "repr_dict [] = []"
| "repr_dict [(k, v)] = repr_str k @ '': '' @ py_repr v"
| "repr_dict ((k, v) # p # ps) = repr_str k @ '': '' @ py_repr v @ '', '' @ repr_dict (p # ps)"

text \<open>\<open>str(v)\<close>, which an f-string applies to an interpolated value.\<close>

definition py_str :: "pyval \<Rightarrow> string" where
  "py_str v = (case v of PStr s \<Rightarrow> s | _ \<Rightarrow> py_repr v)"

definition type_name :: "pyval \<Rightarrow> string" where
  "type_name v =
     (case v of
        PNone \<Rightarrow> ''NoneType'' | PBool _ \<Rightarrow> ''bool'' | PInt _ \<Rightarrow> ''int''
      | PStr _ \<Rightarrow> ''str'' | PList _ \<Rightarrow> ''list'' | PDict _ \<Rightarrow> ''dict'')"

text \<open>
  \<open>v[key]\<close> with a string key: a dictionary looks the key up and raises \<open>KeyError\<close>
  when it is missing; every other value raises \<open>TypeError\<close> (with the message of
  CPython 3.11 and later).
\<close>

definition py_getitem :: "pyval \<Rightarrow> string \<Rightarrow> pyval io" where
  "py_getitem v key =
     (case v of
        PDict kvs \<Rightarrow>
          (case map_of kvs key of
             None \<Rightarrow> io_raise (Exception (KeyError key))
           | Some x \<Rightarrow> io_return x)
      | PList _ \<Rightarrow> io_raise (Exception (TypeError ''list indices must be integers or slices, not str''))
      | PStr _ \<Rightarrow>
          io_raise (Exception (TypeError (''string indices must be integers, not 'str'' @ [CHR 0x27])))
      | _ \<Rightarrow> io_raise (Exception (TypeError ([CHR 0x27] @ type_name v @ [CHR 0x27] @ '' object is not subscriptable''))))"

text \<open>
  \<open>a - b\<close>: defined on integers and booleans (a boolean counts as 0 or 1); every other
  pair of operands raises \<open>TypeError\<close>.
\<close>

definition as_int :: "pyval \<Rightarrow> int option" where
  "as_int v = (case v of PInt i \<Rightarrow> Some i | PBool b \<Rightarrow> Some (if b then 1 else 0) | _ \<Rightarrow> None)"

definition py_sub :: "pyval \<Rightarrow> pyval \<Rightarrow> int io" where
  "py_sub a b =
     (case (as_int a, as_int b) of
        (Some x, Some y) \<Rightarrow> io_return (x - y)
      | _ \<Rightarrow> io_raise (Exception (TypeError
          (''unsupported operand type(s) for -: '' @ [CHR 0x27] @ type_name a @ [CHR 0x27]
             @ '' and '' @ [CHR 0x27] @ type_name b @ [CHR 0x27]))))"

text \<open>The dictionary that \<open>seat_counts\<close> is, as a Python value.\<close>

definition counts_dict :: "seat_counts \<Rightarrow> pyval" where
  "counts_dict c =
     PDict [(''yellow'', PInt (yellow c)), (''red'', PInt (red c)), (''grey'', PInt (grey c))]"

section \<open>fetch_seat_data\<close>

definition URL :: string where
  "URL = ''https://www.eventim.co.uk/event/cem-yilmaz-eventim-apollo-20391162/?affiliate=PP2''"

text \<open>
  The browser-automation engine, seen through the calls the program makes, each with the
  outcome it has in this run: \<open>None\<close> or \<open>Inr\<close> when the call returns, the exception
  when it raises.  \<open>sync_playwright\<close> is the entry into the \<open>with\<close> block; leaving the
  block is taken not to raise.
\<close>

record browser =
  sync_playwright :: "base_exc option"
  launch :: "base_exc option"
  new_page :: "base_exc option"
  set_extra_http_headers :: "base_exc option"
  goto :: "base_exc option"
  wait_for_selector :: "string \<Rightarrow> base_exc option"
  query_selector_all :: "string \<Rightarrow> base_exc + element list"
  content :: "base_exc + string"
  close :: "base_exc option"

definition selectors_to_try :: "string list" where
  "selectors_to_try =
     [''svg'', ''[class*='seat']'', ''[class*='chart']'', ''.seatmap'', ''[data-testid*='seat']'']"

definition seat_selectors :: "string list" where
  "seat_selectors =
     [''svg g[class*='seat']'', ''svg circle[class*='seat']'', ''svg rect[class*='seat']'',
      ''[class*='seat']'', ''svg [fill]'', ''svg [class*='available']'', ''svg [class*='sold']'']"

text \<open>
  Lines 73-81: the first selector whose wait returns marks the chart as loaded and ends
  the loop; a \<open>PlaywrightTimeoutError\<close> moves on to the next selector; any other
  exception leaves the loop.
\<close>

fun wait_for_chart :: "browser \<Rightarrow> string list \<Rightarrow> bool io" where
  "wait_for_chart b [] = io_return False"
| "wait_for_chart b (selector # rest) =
     (case wait_for_selector b selector of
        None \<Rightarrow>
          io_bind (io_log INFO (''Found seating chart with selector: '' @ selector))
            (\<lambda>_. io_return True)
      | Some (Exception (PlaywrightTimeoutError m)) \<Rightarrow> wait_for_chart b rest
      | Some e \<Rightarrow> io_raise e)"

text \<open>
  Lines 102-147: the loop over \<open>seat_selectors\<close> on the pair
  \<open>(seat_counts, total_seats_found)\<close>.  An \<open>Exception\<close> from the query or from a seat is
  handed to \<open>logger.debug\<close> and the loop continues with the next selector, keeping what
  was counted before the exception.
\<close>

fun probe_seats :: "browser \<Rightarrow> string list \<Rightarrow> seat_counts \<times> int \<Rightarrow> (seat_counts \<times> int) io" where
  "probe_seats b [] st = io_return st"
| "probe_seats b (selector # rest) st =
     (case query_selector_all b selector of
        Inl KeyboardInterrupt \<Rightarrow> io_raise KeyboardInterrupt
      | Inl (Exception e) \<Rightarrow>
          io_bind (io_log DEBUG (''Error with selector '' @ selector @ '': '' @ str_exc e))
            (\<lambda>_. probe_seats b rest st)
      | Inr seats \<Rightarrow>
          if seats = [] then probe_seats b rest st
          else
            io_bind (io_log INFO (''Found '' @ str_nat (length seats)
                                    @ '' elements with selector: '' @ selector))
              (\<lambda>_. case count_seats seats st of
                      (st', Some KeyboardInterrupt) \<Rightarrow> io_raise KeyboardInterrupt
                    | (st', Some (Exception e)) \<Rightarrow>
                        io_bind (io_log DEBUG (''Error with selector '' @ selector @ '': '' @ str_exc e))
                          (\<lambda>_. probe_seats b rest st')
                    | (st', None) \<Rightarrow>
                        if snd st' > 0 then io_return st' else probe_seats b rest st'))"

text \<open>Lines 150-156: the look at the page content when no seat was found.\<close>

definition debug_page_content :: "browser \<Rightarrow> unit io" where
  "debug_page_content b =
     io_bind (io_log WARNING ''No seats found, attempting to get page content for debugging...'')
       (\<lambda>_. io_bind (io_result (content b))
       (\<lambda>page_content.
          if py_in ''seat'' (lower page_content) \<or> py_in ''chart'' (lower page_content)
          then io_log INFO ''Page contains seat-related content, but selectors may need adjustment''
          else io_log WARNING ''Page may not contain seating chart or may be loading differently''))"

text \<open>Lines 51-161: the body of the \<open>try\<close>.\<close>

definition fetch_body :: "browser \<Rightarrow> seat_counts io" where
  "fetch_body b =
     io_bind (io_call (sync_playwright b)) (\<lambda>_.
     io_bind (io_call (launch b)) (\<lambda>_.
     io_bind (io_call (new_page b)) (\<lambda>_.
     io_bind (io_call (set_extra_http_headers b)) (\<lambda>_.
     io_bind (io_log INFO (''Loading page: '' @ URL)) (\<lambda>_.
     io_bind (io_call (goto b)) (\<lambda>_.
     io_bind (wait_for_chart b selectors_to_try) (\<lambda>chart_loaded.
     io_bind (if \<not> chart_loaded
              then io_log WARNING ''Could not find seating chart, trying to extract any available data...''
              else io_return ()) (\<lambda>_.
     io_bind (probe_seats b seat_selectors (zero_counts, 0)) (\<lambda>st.
     io_bind (if snd st = 0 then debug_page_content b else io_return ()) (\<lambda>_.
     io_bind (io_call (close b)) (\<lambda>_.
     io_bind (io_log INFO (''Seat data extracted: '' @ py_repr (counts_dict (fst st)))) (\<lambda>_.
     io_return (fst st)))))))))))))"

text \<open>
  Lines 50 and 163-165: \<open>except Exception\<close> around the body logs an error and returns
  the zero counts; an operator interrupt is no \<open>Exception\<close> and goes on to the caller.
\<close>

definition fetch_seat_data :: "browser \<Rightarrow> pyval io" where
  "fetch_seat_data b =
     (case fetch_body b of
        (out, Inr c) \<Rightarrow> (out, Inr (counts_dict c))
      | (out, Inl (Exception e)) \<Rightarrow>
          (out @ [Log ERROR (''Error fetching seat data: '' @ str_exc e)],
           Inr (counts_dict zero_counts))
      | (out, Inl KeyboardInterrupt) \<Rightarrow> (out, Inl KeyboardInterrupt))"

text \<open>
  The calls up to the navigation have all returned: the page is open and the wait for
  the chart begins.
\<close>

definition page_opened :: "browser \<Rightarrow> bool" where
  "page_opened b \<longleftrightarrow>
     sync_playwright b = None \<and> launch b = None \<and> new_page b = None \<and>
     set_extra_http_headers b = None \<and> goto b = None"

section \<open>The snapshot file\<close>

text \<open>
  \<open>DATA_FILE\<close> as the program meets it: it does not exist, or opening or parsing it
  raises, or it parses to a value.  \<open>json.dump\<close> followed by \<open>json.load\<close> gives back a
  value of type \<open>pyval\<close> unchanged, so the file is represented by the value it parses to.
\<close>

datatype disk = Missing | Unreadable exc | Holds pyval

text \<open>Lines 168-186.\<close>

definition load_previous_data :: "disk \<Rightarrow> pyval io" where
  "load_previous_data d =
     (case d of
        Holds data \<Rightarrow>
          io_bind (io_log INFO (''Loaded previous data: '' @ py_str data)) (\<lambda>_. io_return data)
      | Missing \<Rightarrow>
          io_bind (io_log INFO ''No previous data file found, using defaults'')
            (\<lambda>_. io_return (counts_dict zero_counts))
      | Unreadable e \<Rightarrow>
          io_bind (io_log ERROR (''Error loading previous data: '' @ str_exc e))
            (\<lambda>_. io_return (counts_dict zero_counts)))"

text \<open>
  Lines 189-209.  \<open>iso_time\<close> and \<open>stamp\<close> are the two readings of the clock, already
  formatted.  \<open>write\<close> is the outcome of opening and writing the file: \<open>None\<close> when it
  succeeds, otherwise the exception raised and the state the file is left in.
  \<open>{**data, ...}\<close> raises \<open>TypeError\<close> when \<open>data\<close> is no dictionary.
\<close>

definition save_current_data ::
    "string \<Rightarrow> string \<Rightarrow> (exc \<times> disk) option \<Rightarrow> pyval \<Rightarrow> disk \<Rightarrow> disk \<times> unit io" where
  "save_current_data iso_time stamp write data d =
     (case data of
        PDict kvs \<Rightarrow>
          (let data_with_timestamp =
                 PDict (AList.update ''last_check'' (PStr stamp)
                         (AList.update ''timestamp'' (PStr iso_time) kvs))
           in case write of
                None \<Rightarrow>
                  (Holds data_with_timestamp, io_log INFO (''Saved current data: '' @ py_str data))
              | Some (e, d') \<Rightarrow>
                  (d', io_log ERROR (''Error saving current data: '' @ str_exc e)))
      | _ \<Rightarrow>
          (d, io_log ERROR (''Error saving current data: ''
                 @ [CHR 0x27] @ type_name data @ [CHR 0x27] @ '' object is not a mapping'')))"

section \<open>compare_and_notify\<close>

definition more_line :: "string \<Rightarrow> int \<Rightarrow> string" where
  "more_line category diff =
     [CHR 0xC4, CHR 0x9F, CHR 0xC5, CHR 0xB8, CHR 0xC5, CHR 0xB8, CHR 0xC2, CHR 0xA2]
       @ '' More '' @ category @ '' seats available (+'' @ str_int diff @ '')''"

definition sold_line :: "string \<Rightarrow> int \<Rightarrow> string" where
  "sold_line category diff =
     [CHR 0xC4, CHR 0x9F, CHR 0xC5, CHR 0xB8, CHR 0xC5, CHR 0xB8, CHR 0xC3, CHR 0xAF, CHR 0xC2, CHR 0xB8]
       @ '' New tickets sold in category '' @ category @ '' ('' @ str_int diff @ '')''"

definition no_changes_line :: string where
  "no_changes_line =
     [CHR 0xC4, CHR 0x9F, CHR 0xC5, CHR 0xB8, CHR 0xE2, CHR 0x80, CHR 0x9C, CHR 0xC5, CHR 0xA0]
       @ '' No changes detected since last check''"

text \<open>Line 226.\<close>

definition category_of :: "string \<Rightarrow> string" where
  "category_of color =
     (if color = ''yellow'' then ''Yellow'' else if color = ''red'' then ''Red'' else ''Sold (grey)'')"

text \<open>Lines 228-231: the line printed for a difference that is not zero.\<close>

definition change_line :: "string \<Rightarrow> int \<Rightarrow> string" where
  "change_line category diff =
     (if diff > 0 then more_line category diff else sold_line category diff)"

text \<open>Lines 222-231: the loop over the colours, with the flag \<open>changes_detected\<close>.\<close>

fun compare_loop :: "string list \<Rightarrow> pyval \<Rightarrow> pyval \<Rightarrow> bool \<Rightarrow> bool io" where
  "compare_loop [] current previous changes_detected = io_return changes_detected"
| "compare_loop (color # rest) current previous changes_detected =
     io_bind (py_getitem current color) (\<lambda>a.
     io_bind (py_getitem previous color) (\<lambda>b.
     io_bind (py_sub a b) (\<lambda>diff.
       if diff \<noteq> 0 then
         io_bind (io_print (change_line (category_of color) diff))
           (\<lambda>_. compare_loop rest current previous True)
       else compare_loop rest current previous changes_detected)))"

definition compare_and_notify :: "pyval \<Rightarrow> pyval \<Rightarrow> unit io" where
  "compare_and_notify current previous =
     io_bind (compare_loop [''yellow'', ''red'', ''grey''] current previous False)
       (\<lambda>changes_detected.
          if \<not> changes_detected then io_print no_changes_line else io_return ())"

section \<open>print_seat_summary\<close>

text \<open>Lines 237-251; \<open>now\<close> is the clock reading of line 250, already formatted.\<close>

definition print_seat_summary :: "string \<Rightarrow> pyval \<Rightarrow> unit io" where
  "print_seat_summary now data =
     io_bind (io_print (CHR 0x0A # replicate 50 CHR ''='')) (\<lambda>_.
     io_bind (io_print ([CHR 0xC4, CHR 0x9F, CHR 0xC5, CHR 0xB8, CHR 0xC2, CHR 0xAD] @ '' EVENTIM SEAT AVAILABILITY REPORT'')) (\<lambda>_.
     io_bind (io_print (replicate 50 CHR ''='')) (\<lambda>_.
     io_bind (py_getitem data ''yellow'') (\<lambda>y.
     io_bind (io_print ([CHR 0xC4, CHR 0x9F, CHR 0xC5, CHR 0xB8, CHR 0xC5, CHR 0xB8, CHR 0xC2, CHR 0xA1] @ '' Yellow (Available): '' @ py_str y)) (\<lambda>_.
     io_bind (py_getitem data ''red'') (\<lambda>r.
     io_bind (io_print ([CHR 0xC4, CHR 0x9F, CHR 0xC5, CHR 0xB8, CHR 0xE2, CHR 0x80, CHR 0x9D, CHR 0xC2, CHR 0xB4] @ '' Red (Premium Available): '' @ py_str r)) (\<lambda>_.
     io_bind (py_getitem data ''grey'') (\<lambda>g.
     io_bind (io_print ([CHR 0xC3, CHR 0xA2, CHR 0xC5, CHR 0xA1, CHR 0xC2, CHR 0xAB] @ '' Sold (Grey): '' @ py_str g)) (\<lambda>_.
     io_bind (io_print ([CHR 0xC4, CHR 0x9F, CHR 0xC5, CHR 0xB8, CHR 0xE2, CHR 0x80, CHR 0x9C, CHR 0xE2, CHR 0x80, CHR 0xA6] @ '' Check Time: '' @ now)) (\<lambda>_.
     io_print (replicate 50 CHR ''='')))))))))))"

section \<open>main\<close>

definition CHECK_INTERVAL :: int where
  "CHECK_INTERVAL = 3 * 60 * 60"

text \<open>\<open>CHECK_INTERVAL / 3600\<close> is the float 3.0, which an f-string prints as \<open>3.0\<close>.\<close>

definition hours :: string where
  "hours = ''3.0''"

text \<open>
  What one cycle of the loop meets: the browser, the readings of the clock (formatted,
  in the order of the calls; \<open>wait_timestamp\<close> is the timestamp of line 284 rounded to a
  whole number, as its format does), the outcome of writing the snapshot file, and the
  outcome of \<open>time.sleep\<close> (\<open>Some KeyboardInterrupt\<close> when the operator interrupts).
\<close>

record cycle_env =
  page :: browser
  check_time :: string
  summary_time :: string
  save_iso :: string
  save_time :: string
  wait_timestamp :: int
  write_result :: "(exc \<times> disk) option"
  sleep_result :: "base_exc option"

text \<open>Lines 264-276: from the headline to \<open>compare_and_notify\<close>.\<close>

definition cycle_front :: "cycle_env \<Rightarrow> disk \<Rightarrow> pyval io" where
  "cycle_front env d =
     io_bind (io_print ([CHR 0x0A] @ [CHR 0xC4, CHR 0x9F, CHR 0xC5, CHR 0xB8, CHR 0xE2, CHR 0x80, CHR 0x9D]
                          @ '' Checking seat availability at '' @ check_time env)) (\<lambda>_.
     io_bind (fetch_seat_data (page env)) (\<lambda>current_data.
     io_bind (load_previous_data d) (\<lambda>previous_data.
     io_bind (print_seat_summary (summary_time env) current_data) (\<lambda>_.
     io_bind (compare_and_notify current_data previous_data) (\<lambda>_.
     io_return current_data)))))"

text \<open>Lines 282-287: the announcement of the wait, and the wait.\<close>

definition cycle_wait :: "cycle_env \<Rightarrow> unit io" where
  "cycle_wait env =
     io_bind (io_print ([CHR 0x0A] @ [CHR 0xC3, CHR 0xA2, CHR 0xC2, CHR 0xB0]
                          @ '' Waiting for '' @ hours @ '' hours before next check...'')) (\<lambda>_.
     io_bind (io_print (''Next check scheduled for: ''
                          @ str_int (wait_timestamp env + CHECK_INTERVAL))) (\<lambda>_.
     io_bind (io_print (replicate 50 CHR ''-'')) (\<lambda>_.
     io_call (sleep_result env))))"

text \<open>Lines 264-287: one pass of \<open>while True\<close>, on the state of the snapshot file.\<close>

definition cycle :: "cycle_env \<Rightarrow> disk \<Rightarrow> disk \<times> unit io" where
  "cycle env d =
     (case cycle_front env d of
        (out, Inl e) \<Rightarrow> (d, (out, Inl e))
      | (out, Inr current_data) \<Rightarrow>
          (case save_current_data (save_iso env) (save_time env) (write_result env) current_data d of
             (d', saved) \<Rightarrow>
               (d', io_bind (out, Inr ()) (\<lambda>_. io_bind saved (\<lambda>_. cycle_wait env)))))"

text \<open>
  \<open>while True\<close> (lines 263-287) never ends by itself.  It is run on the finite list of
  the cycles the environment provides: the result is the state of the file, the output,
  and either the exception that left the loop, or \<open>None\<close> when every cycle of the list
  has been run and the loop is about to begin the next one.
\<close>

fun main_loop :: "cycle_env list \<Rightarrow> disk \<Rightarrow> disk \<times> event list \<times> base_exc option" where
  "main_loop [] d = (d, [], None)"
| "main_loop (env # envs) d =
     (case cycle env d of
        (d', (out, Inl e)) \<Rightarrow> (d', out, Some e)
      | (d', (out, Inr _)) \<Rightarrow>
          (case main_loop envs d' of (d'', out', r) \<Rightarrow> (d'', out @ out', r)))"

text \<open>\<open>Returned\<close>: \<open>main\<close> has returned, the process ends.  \<open>Running\<close>: the loop goes on.\<close>

datatype status = Returned | Running

text \<open>
  Lines 254-295.  Both \<open>except\<close> clauses belong to the \<open>try\<close> that encloses the whole
  \<open>while\<close> loop, so an exception of a cycle leaves the loop before it is handled.
\<close>

definition main :: "cycle_env list \<Rightarrow> disk \<Rightarrow> disk \<times> event list \<times> status" where
  "main envs d =
     (let start = [Log INFO ''Starting Eventim Seat Monitor'',
                   Log INFO (''Monitoring URL: '' @ URL),
                   Log INFO (''Check interval: '' @ hours @ '' hours'')]
      in case main_loop envs d of
           (d', out, None) \<Rightarrow> (d', start @ out, Running)
         | (d', out, Some KeyboardInterrupt) \<Rightarrow>
             (d', start @ out @
                  [Log INFO ''Monitoring stopped by user'',
                   Print ([CHR 0x0A] @ [CHR 0xC4, CHR 0x9F, CHR 0xC5, CHR 0xB8, CHR 0xE2, CHR 0x80, CHR 0x98, CHR 0xE2, CHR 0x80, CHR 0xB9]
                            @ '' Seat monitoring stopped. Goodbye!'')],
              Returned)
         | (d', out, Some (Exception e)) \<Rightarrow>
             (d', start @ out @
                  [Log ERROR (''Unexpected error in main loop: '' @ str_exc e),
                   Print ([CHR 0x0A] @ [CHR 0xC3, CHR 0xA2, CHR 0xC5, CHR 0x92] @ '' Error occurred: '' @ str_exc e),
                   Print ''The script will continue monitoring...''],
              Returned))"

section \<open>Concrete runs\<close>

text \<open>
  A browser whose wait for \<open>svg\<close> times out and whose first seat selector raises, while
  every other query finds one yellow seat.
\<close>

definition selector_error_browser :: browser where
  "selector_error_browser =
     \<lparr>sync_playwright = None, launch = None, new_page = None, set_extra_http_headers = None,
      goto = None,
      wait_for_selector =
        (\<lambda>s. if s = ''svg'' then Some (Exception (PlaywrightTimeoutError ''Timeout 10000ms exceeded.''))
              else None),
      query_selector_all =
        (\<lambda>s. if s = ''svg g[class*='seat']''
              then Inl (Exception (OtherException ''Execution context was destroyed''))
              else Inr [\<lparr>attr_fill = Inr (Some ''yellow''), attr_class = Inr None\<rparr>]),
      content = Inr [], close = None\<rparr>"

text \<open>A browser whose navigation times out.\<close>

definition navigation_timeout_browser :: browser where
  "navigation_timeout_browser =
     \<lparr>sync_playwright = None, launch = None, new_page = None, set_extra_http_headers = None,
      goto = Some (Exception (PlaywrightTimeoutError ''Timeout 30000ms exceeded.'')),
      wait_for_selector = (\<lambda>s. None),
      query_selector_all = (\<lambda>s. Inr []),
      content = Inr [], close = None\<rparr>"

text \<open>A browser on which every call returns and every query finds a yellow and a grey seat.\<close>

definition two_seat_browser :: browser where
  "two_seat_browser =
     \<lparr>sync_playwright = None, launch = None, new_page = None, set_extra_http_headers = None,
      goto = None,
      wait_for_selector = (\<lambda>s. None),
      query_selector_all =
        (\<lambda>s. Inr [\<lparr>attr_fill = Inr (Some ''yellow''), attr_class = Inr None\<rparr>,
                   \<lparr>attr_fill = Inr (Some ''grey''), attr_class = Inr None\<rparr>]),
      content = Inr [], close = None\<rparr>"

text \<open>A browser whose wait for the chart raises an exception that is no timeout.\<close>

definition chart_error_browser :: browser where
  "chart_error_browser =
     \<lparr>sync_playwright = None, launch = None, new_page = None, set_extra_http_headers = None,
      goto = None,
      wait_for_selector = (\<lambda>s. Some (Exception (OtherException ''Target page has been closed''))),
      query_selector_all = (\<lambda>s. Inr []),
      content = Inr [], close = None\<rparr>"

text \<open>A browser that finds no seat and whose \<open>page.content()\<close> raises.\<close>

definition content_error_browser :: browser where
  "content_error_browser =
     \<lparr>sync_playwright = None, launch = None, new_page = None, set_extra_http_headers = None,
      goto = None,
      wait_for_selector = (\<lambda>s. None),
      query_selector_all = (\<lambda>s. Inr []),
      content = Inl (Exception (OtherException ''Target page has been closed'')), close = None\<rparr>"

text \<open>A browser that finds two seats and whose \<open>browser.close()\<close> raises.\<close>

definition close_error_browser :: browser where
  "close_error_browser =
     \<lparr>sync_playwright = None, launch = None, new_page = None, set_extra_http_headers = None,
      goto = None,
      wait_for_selector = (\<lambda>s. None),
      query_selector_all =
        (\<lambda>s. Inr [\<lparr>attr_fill = Inr (Some ''yellow''), attr_class = Inr None\<rparr>,
                   \<lparr>attr_fill = Inr (Some ''grey''), attr_class = Inr None\<rparr>]),
      content = Inr [], close = Some (Exception (OtherException ''Browser has been closed''))\<rparr>"

text \<open>A browser whose first seat selector finds a yellow seat and a seat whose \<open>class\<close>
  attribute cannot be read, and whose other selectors find one grey seat.\<close>

definition seat_error_browser :: browser where
  "seat_error_browser =
     \<lparr>sync_playwright = None, launch = None, new_page = None, set_extra_http_headers = None,
      goto = None,
      wait_for_selector = (\<lambda>s. None),
      query_selector_all =
        (\<lambda>s. if s = ''svg g[class*='seat']''
              then Inr [\<lparr>attr_fill = Inr (Some ''yellow''), attr_class = Inr None\<rparr>,
                        \<lparr>attr_fill = Inr (Some ''red''),
                         attr_class = Inl (Exception (OtherException ''Element is not attached to the DOM''))\<rparr>]
              else Inr [\<lparr>attr_fill = Inr (Some ''grey''), attr_class = Inr None\<rparr>]),
      content = Inr [], close = None\<rparr>"

text \<open>A cycle in which the browser, the write of the file and the wait all succeed.\<close>

definition quiet_cycle :: cycle_env where
  "quiet_cycle =
     \<lparr>page = two_seat_browser,
      check_time = ''2024-05-01 09:00:00'', summary_time = ''2024-05-01 09:00:07'',
      save_iso = ''2024-05-01T09:00:07.120000'', save_time = ''2024-05-01 09:00:07'',
      wait_timestamp = 1714554007, write_result = None, sleep_result = None\<rparr>"

section \<open>Classification of one seat\<close>

lemma count_fill_total:
  "yellow (count_fill s c) + red (count_fill s c) + grey (count_fill s c)
     = yellow c + red c + grey c + 1"
  by (simp add: count_fill_def Let_def)

lemma count_class_total:
  "yellow (count_class s c) + red (count_class s c) + grey (count_class s c) =
     yellow c + red c + grey c +
      (if py_in ''available'' (lower s) \<or> py_in ''free'' (lower s) \<or> py_in ''sold'' (lower s)
          \<or> py_in ''taken'' (lower s) \<or> py_in ''occupied'' (lower s) then 1 else 0)"
  by (simp add: count_class_def Let_def)

lemma count_class_no_match:
  "\<not> py_in ''available'' (lower s) \<Longrightarrow> \<not> py_in ''free'' (lower s) \<Longrightarrow>
   \<not> py_in ''sold'' (lower s) \<Longrightarrow> \<not> py_in ''taken'' (lower s) \<Longrightarrow>
   \<not> py_in ''occupied'' (lower s) \<Longrightarrow> count_class s c = c"
  by (simp add: count_class_def Let_def)

text \<open>
  A seat with a non-empty fill colour and a class name that matches a class rule is
  counted twice: once by the colour branch and once more by the class check.
\<close>

lemma count_seat_both_rules_adds_two:
  assumes "attr_fill seat = Inr (Some f)" and "f \<noteq> []"
    and "attr_class seat = Inr (Some s)"
    and "py_in ''available'' (lower s) \<or> py_in ''free'' (lower s) \<or> py_in ''sold'' (lower s)
          \<or> py_in ''taken'' (lower s) \<or> py_in ''occupied'' (lower s)"
  shows "\<exists>c'. count_seat seat (c, t) = Inr (c', t + 1) \<and>
           yellow c' + red c' + grey c' = yellow c + red c + grey c + 2"
  using assms by (simp add: count_seat_def count_class_total count_fill_total Let_def)

text \<open>
  C1.  The claim: an element whose fill colour matches a colour rule and whose class name
  matches a class rule gets exactly one category, the class-derived one, and adds exactly
  1 to exactly one count.  The code counts such an element in both categories.  A seat
  with fill \<open>yellow\<close> and class \<open>seat sold\<close>, counted from zero, leaves \<open>yellow = 1\<close> and
  \<open>grey = 1\<close>; a seat with fill \<open>yellow\<close> and class \<open>seat available\<close> leaves \<open>yellow = 2\<close>.
\<close>

theorem count_seat_colour_and_class_counted_twice:
  "count_seat \<lparr>attr_fill = Inr (Some ''yellow''), attr_class = Inr (Some ''seat sold'')\<rparr>
       (zero_counts, 0)
     = Inr (\<lparr>yellow = 1, red = 0, grey = 1\<rparr>, 1) \<and>
   count_seat \<lparr>attr_fill = Inr (Some ''yellow''), attr_class = Inr (Some ''seat available'')\<rparr>
       (zero_counts, 0)
     = Inr (\<lparr>yellow = 2, red = 0, grey = 0\<rparr>, 1)"
  by code_simp

text \<open>
  C4.  The claim lists seven inputs of the classifier and their categories.  Six hold; the
  fill colour \<open>#00ff00\<close> contains neither \<open>green\<close> nor \<open>blue\<close> nor any other colour
  name, so it falls to the last branch and is counted as grey (sold), not as yellow
  (available_standard).
\<close>

theorem classifier_hex_green_counterexample:
  "count_seat \<lparr>attr_fill = Inr (Some ''#00ff00''), attr_class = Inr None\<rparr> (zero_counts, 0)
     = Inr (\<lparr>yellow = 0, red = 0, grey = 1\<rparr>, 1) \<and>
   count_seat \<lparr>attr_fill = Inr (Some ''#00ff00''), attr_class = Inr None\<rparr> (zero_counts, 0)
     \<noteq> Inr (\<lparr>yellow = 1, red = 0, grey = 0\<rparr>, 1)"
  by code_simp

text \<open>
  C4 as amended: \<open>Gold\<close> is counted as yellow, \<open>crimson\<close> as red, \<open>SILVER\<close> as grey,
  \<open>#00ff00\<close> as grey, \<open>purple\<close> as grey; the class name \<open>seat available vip\<close> as red and
  \<open>seat sold taken\<close> as grey (each on an element without the other attribute).
\<close>

theorem classifier_examples:
  "count_seat \<lparr>attr_fill = Inr (Some ''Gold''), attr_class = Inr None\<rparr> (zero_counts, 0)
     = Inr (\<lparr>yellow = 1, red = 0, grey = 0\<rparr>, 1) \<and>
   count_seat \<lparr>attr_fill = Inr (Some ''crimson''), attr_class = Inr None\<rparr> (zero_counts, 0)
     = Inr (\<lparr>yellow = 0, red = 1, grey = 0\<rparr>, 1) \<and>
   count_seat \<lparr>attr_fill = Inr (Some ''SILVER''), attr_class = Inr None\<rparr> (zero_counts, 0)
     = Inr (\<lparr>yellow = 0, red = 0, grey = 1\<rparr>, 1) \<and>
   count_seat \<lparr>attr_fill = Inr (Some ''#00ff00''), attr_class = Inr None\<rparr> (zero_counts, 0)
     = Inr (\<lparr>yellow = 0, red = 0, grey = 1\<rparr>, 1) \<and>
   count_seat \<lparr>attr_fill = Inr (Some ''purple''), attr_class = Inr None\<rparr> (zero_counts, 0)
     = Inr (\<lparr>yellow = 0, red = 0, grey = 1\<rparr>, 1) \<and>
   count_seat \<lparr>attr_fill = Inr None, attr_class = Inr (Some ''seat available vip'')\<rparr> (zero_counts, 0)
     = Inr (\<lparr>yellow = 0, red = 1, grey = 0\<rparr>, 1) \<and>
   count_seat \<lparr>attr_fill = Inr None, attr_class = Inr (Some ''seat sold taken'')\<rparr> (zero_counts, 0)
     = Inr (\<lparr>yellow = 0, red = 0, grey = 1\<rparr>, 1)"
  by code_simp

text \<open>
  C5.  The claim: an element that matches no colour rule and no class rule adds to no
  category and not to the total of seats found.  The total is incremented for every
  element of the result set, matched or not: an element without \<open>fill\<close> and without
  \<open>class\<close> leaves the counts at zero and makes the total 1.
\<close>

theorem count_seat_unmatched_counterexample:
  "count_seat \<lparr>attr_fill = Inr None, attr_class = Inr None\<rparr> (zero_counts, 0)
     = Inr (zero_counts, 1) \<and>
   count_seat \<lparr>attr_fill = Inr None, attr_class = Inr None\<rparr> (zero_counts, 0)
     \<noteq> Inr (zero_counts, 0)"
  by code_simp

text \<open>
  C5 as amended: an element whose fill colour is absent or empty and whose class name
  matches no class rule leaves every category count as it was, and adds 1 to the total
  of seats found.
\<close>

theorem count_seat_unmatched:
  assumes "attr_fill seat = Inr f" and "f = None \<or> f = Some []"
    and "attr_class seat = Inr cls"
    and "\<not> py_in ''available'' (lower (case cls of None \<Rightarrow> [] | Some s \<Rightarrow> s))"
    and "\<not> py_in ''free'' (lower (case cls of None \<Rightarrow> [] | Some s \<Rightarrow> s))"
    and "\<not> py_in ''sold'' (lower (case cls of None \<Rightarrow> [] | Some s \<Rightarrow> s))"
    and "\<not> py_in ''taken'' (lower (case cls of None \<Rightarrow> [] | Some s \<Rightarrow> s))"
    and "\<not> py_in ''occupied'' (lower (case cls of None \<Rightarrow> [] | Some s \<Rightarrow> s))"
  shows "count_seat seat (c, t) = Inr (c, t + 1)"
  using assms by (auto simp: count_seat_def count_class_no_match Let_def)

theorem count_seat_unmatched_witness:
  "count_seat \<lparr>attr_fill = Inr (Some []), attr_class = Inr (Some ''Seat Row-3'')\<rparr>
       (\<lparr>yellow = 4, red = 1, grey = 7\<rparr>, 12)
     = Inr (\<lparr>yellow = 4, red = 1, grey = 7\<rparr>, 13)"
proof -
  have "count_seat \<lparr>attr_fill = Inr (Some []), attr_class = Inr (Some ''Seat Row-3'')\<rparr>
          (\<lparr>yellow = 4, red = 1, grey = 7\<rparr>, 12)
        = Inr (\<lparr>yellow = 4, red = 1, grey = 7\<rparr>, 12 + 1)"
    by (rule count_seat_unmatched [where f = "Some []" and cls = "Some ''Seat Row-3''"])
       (simp, simp, simp, code_simp+)
  then show ?thesis by simp
qed

section \<open>compare_and_notify on two snapshots\<close>

text \<open>
  On two dictionaries that hold an integer under each of the three colours, the loop
  prints, in the order yellow, red, grey, one line for each colour whose difference is
  not zero, and the line of no changes after them when all three differences are zero.
\<close>

lemma compare_output:
  assumes "map_of c ''yellow'' = Some (PInt cy)" and "map_of c ''red'' = Some (PInt cr)"
    and "map_of c ''grey'' = Some (PInt cg)"
    and "map_of p ''yellow'' = Some (PInt py)" and "map_of p ''red'' = Some (PInt pr)"
    and "map_of p ''grey'' = Some (PInt pg)"
  shows "compare_and_notify (PDict c) (PDict p) =
     ((if cy = py then [] else [Print (change_line ''Yellow'' (cy - py))]) @
      (if cr = pr then [] else [Print (change_line ''Red'' (cr - pr))]) @
      (if cg = pg then [] else [Print (change_line ''Sold (grey)'' (cg - pg))]) @
      (if cy = py \<and> cr = pr \<and> cg = pg then [Print no_changes_line] else []),
      Inr ())"
  using assms
  by (simp add: compare_and_notify_def py_getitem_def py_sub_def as_int_def io_bind_def
      io_return_def io_print_def category_of_def)

lemma no_changes_not_change_line: "no_changes_line \<noteq> change_line category d"
  by (simp add: no_changes_line_def change_line_def more_line_def sold_line_def)

lemma more_not_sold: "more_line c1 d1 \<noteq> sold_line c2 d2"
  by (simp add: more_line_def sold_line_def)

lemma sold_line_category:
  "sold_line ''Sold (grey)'' d \<noteq> sold_line ''Yellow'' d'"
  "sold_line ''Sold (grey)'' d \<noteq> sold_line ''Red'' d'"
  by (simp_all add: sold_line_def)

text \<open>
  C6.  For two snapshots with integer counts (non-negative or not), compare_and_notify
  returns without an exception; it prints exactly one line for each category whose
  counts differ and none for a category whose counts agree, and it prints the line of
  no changes if and only if all three differences are zero.
\<close>

theorem compare_reports_each_difference:
  assumes "map_of c ''yellow'' = Some (PInt cy)" and "map_of c ''red'' = Some (PInt cr)"
    and "map_of c ''grey'' = Some (PInt cg)"
    and "map_of p ''yellow'' = Some (PInt py)" and "map_of p ''red'' = Some (PInt pr)"
    and "map_of p ''grey'' = Some (PInt pg)"
  shows "\<exists>out. compare_and_notify (PDict c) (PDict p) = (out, Inr ()) \<and>
     out = (if cy = py then [] else [Print (change_line ''Yellow'' (cy - py))]) @
           (if cr = pr then [] else [Print (change_line ''Red'' (cr - pr))]) @
           (if cg = pg then [] else [Print (change_line ''Sold (grey)'' (cg - pg))]) @
           (if cy = py \<and> cr = pr \<and> cg = pg then [Print no_changes_line] else []) \<and>
     length out = (if cy = py then 0 else 1) + (if cr = pr then 0 else 1)
                  + (if cg = pg then 0 else 1)
                  + (if cy = py \<and> cr = pr \<and> cg = pg then 1 else 0) \<and>
     (Print no_changes_line \<in> set out \<longleftrightarrow> cy - py = 0 \<and> cr - pr = 0 \<and> cg - pg = 0)"
  by (simp add: compare_output [OF assms] no_changes_not_change_line)

theorem compare_reports_each_difference_witness:
  "\<exists>out. compare_and_notify
            (PDict [(''yellow'', PInt 3), (''red'', PInt 2), (''grey'', PInt 12)])
            (PDict [(''yellow'', PInt 5), (''red'', PInt 2), (''grey'', PInt 10),
                    (''timestamp'', PStr ''2024-05-01T06:00:07.120000''),
                    (''last_check'', PStr ''2024-05-01 06:00:07'')]) = (out, Inr ()) \<and>
     out = [Print (change_line ''Yellow'' (- 2)), Print (change_line ''Sold (grey)'' 2)] \<and>
     length out = 2 \<and> Print no_changes_line \<notin> set out"
  using compare_reports_each_difference
    [of "[(''yellow'', PInt 3), (''red'', PInt 2), (''grey'', PInt 12)]" 3 2 12
        "[(''yellow'', PInt 5), (''red'', PInt 2), (''grey'', PInt 10),
          (''timestamp'', PStr ''2024-05-01T06:00:07.120000''),
          (''last_check'', PStr ''2024-05-01 06:00:07'')]" 5 2 10]
  by simp

text \<open>
  Whenever the grey count has grown, the line printed for the category \<open>Sold (grey)\<close>
  is the more-available line and no tickets-sold line is printed for it.
\<close>

lemma sold_increase_prints_more_line:
  assumes "map_of c ''yellow'' = Some (PInt cy)" and "map_of c ''red'' = Some (PInt cr)"
    and "map_of c ''grey'' = Some (PInt cg)"
    and "map_of p ''yellow'' = Some (PInt py)" and "map_of p ''red'' = Some (PInt pr)"
    and "map_of p ''grey'' = Some (PInt pg)"
    and "pg < cg"
  shows "\<exists>out. compare_and_notify (PDict c) (PDict p) = (out, Inr ()) \<and>
     Print (more_line ''Sold (grey)'' (cg - pg)) \<in> set out \<and>
     Print (sold_line ''Sold (grey)'' d) \<notin> set out"
  using \<open>pg < cg\<close>
  by (simp add: compare_output [OF assms(1-6)] change_line_def more_not_sold
        more_not_sold[symmetric] sold_line_category sold_line_category[symmetric])

text \<open>
  C3.  The claim: when the sold count has grown, the positive difference is reported as a
  tickets-sold message, not as a more-available message.  The code chooses the message by
  the sign of the difference alone, also for the grey count, which the program itself
  calls sold.  With the previous snapshot \<open>{5, 2, 10}\<close> and the current one
  \<open>{3, 2, 12}\<close> two more seats are sold, and the line printed for the category
  \<open>Sold (grey)\<close> is the more-available line, with \<open>+2\<close>.
\<close>

theorem compare_sold_increase_printed_as_more_available:
  "compare_and_notify (counts_dict \<lparr>yellow = 3, red = 2, grey = 12\<rparr>)
                      (counts_dict \<lparr>yellow = 5, red = 2, grey = 10\<rparr>) =
     ([Print ([CHR 0xC4, CHR 0x9F, CHR 0xC5, CHR 0xB8, CHR 0xC5, CHR 0xB8, CHR 0xC3, CHR 0xAF,
               CHR 0xC2, CHR 0xB8] @ '' New tickets sold in category Yellow (-2)''),
       Print ([CHR 0xC4, CHR 0x9F, CHR 0xC5, CHR 0xB8, CHR 0xC5, CHR 0xB8, CHR 0xC2, CHR 0xA2]
               @ '' More Sold (grey) seats available (+2)'')],
      Inr ())"
  by code_simp

section \<open>Exceptions in fetch_seat_data\<close>

lemma fetch_never_raises_Exception: "snd (fetch_seat_data b) \<noteq> Inl (Exception e)"
  by (simp add: fetch_seat_data_def split: prod.splits sum.splits base_exc.splits)

lemma fetch_body_handled:
  "snd (fetch_body b) = Inl (Exception e) \<Longrightarrow>
     fetch_seat_data b =
       (fst (fetch_body b) @ [Log ERROR (''Error fetching seat data: '' @ str_exc e)],
        Inr (counts_dict zero_counts))"
  by (cases "fetch_body b") (simp add: fetch_seat_data_def)

lemma io_bind_log_snd: "snd (io_bind (io_log l m) f) = snd (f ())"
  by (simp add: io_bind_def io_log_def split: prod.splits)

text \<open>
  The loop over the seat selectors catches every \<open>Exception\<close> itself: none leaves it,
  whatever the browser does.
\<close>

lemma probe_seats_never_raises_Exception:
  "snd (probe_seats b sels st) \<noteq> Inl (Exception e)"
proof (induction sels arbitrary: st)
  case Nil
  then show ?case by (simp add: io_return_def)
next
  case (Cons selector rest)
  show ?case
  proof (cases "query_selector_all b selector")
    case (Inl x)
    then show ?thesis
      by (cases x) (simp_all add: io_bind_log_snd io_raise_def Cons.IH)
  next
    case (Inr seats)
    show ?thesis
    proof (cases "seats = []")
      case True
      with Inr show ?thesis by (simp add: Cons.IH)
    next
      case False
      obtain st' r where cs: "count_seats seats st = (st', r)"
        by (cases "count_seats seats st")
      show ?thesis
      proof (cases r)
        case None
        with Inr False cs show ?thesis
          by (simp add: io_bind_log_snd io_return_def Cons.IH)
      next
        case (Some x)
        with Inr False cs show ?thesis
          by (cases x) (simp_all add: io_bind_log_snd io_raise_def Cons.IH)
      qed
    qed
  qed
qed

text \<open>The wait for the chart never ends with a timeout: a timeout moves on.\<close>

lemma wait_for_chart_never_times_out:
  "snd (wait_for_chart b sels) \<noteq> Inl (Exception (PlaywrightTimeoutError m))"
proof (induction sels)
  case Nil
  then show ?case by (simp add: io_return_def)
next
  case (Cons selector rest)
  then show ?case
    by (auto simp: io_bind_log_snd io_return_def io_raise_def
             split: option.splits base_exc.splits exc.splits)
qed

text \<open>
  C7.  The claim: every exception raised during the fetch, selector errors included, is
  caught, logged as an error and turned into the zero counts.  An exception raised while
  a seat selector is probed is caught by the handler inside the loop: it goes to
  \<open>logger.debug\<close> and the next selector is tried; a timeout of the wait for the chart
  is skipped in the same way.  On \<open>selector_error_browser\<close> both happen, no error is
  logged and the result is one yellow seat, not the zero counts.
\<close>

theorem fetch_inner_handlers_counterexample:
  "fetch_seat_data selector_error_browser =
     ([Log INFO (''Loading page: '' @ URL),
       Log INFO ''Found seating chart with selector: [class*='seat']'',
       Log DEBUG ''Error with selector svg g[class*='seat']: Execution context was destroyed'',
       Log INFO ''Found 1 elements with selector: svg circle[class*='seat']'',
       Log INFO ''Seat data extracted: {'yellow': 1, 'red': 0, 'grey': 0}''],
      Inr (counts_dict \<lparr>yellow = 1, red = 0, grey = 0\<rparr>)) \<and>
   counts_dict \<lparr>yellow = 1, red = 0, grey = 0\<rparr> \<noteq> counts_dict zero_counts"
  by code_simp

text \<open>
  What each failing call of the fetch leads to, one statement for each place an
  \<open>Exception\<close> can arise.
\<close>

lemma fetch_obj_never:
  "snd (fetch_seat_data b) \<noteq> Inl (Exception e)"
  by (rule fetch_never_raises_Exception)

lemma fetch_obj_body:
  "snd (fetch_body b) = Inl (Exception e) \<longrightarrow>
      fetch_seat_data b = (fst (fetch_body b) @ [Log ERROR (''Error fetching seat data: '' @ str_exc e)], Inr (counts_dict zero_counts))"
  by (simp add: fetch_body_handled)

lemma fetch_obj_sync:
  "sync_playwright b = Some (Exception e) \<longrightarrow>
      fetch_seat_data b = ([Log ERROR (''Error fetching seat data: '' @ str_exc e)], Inr (counts_dict zero_counts))"
  by (simp add: fetch_body_def io_bind_def io_call_def fetch_seat_data_def)

lemma fetch_obj_launch:
  "sync_playwright b = None \<and> launch b = Some (Exception e) \<longrightarrow>
      fetch_seat_data b = ([Log ERROR (''Error fetching seat data: '' @ str_exc e)], Inr (counts_dict zero_counts))"
  by (simp add: fetch_body_def io_bind_def io_call_def fetch_seat_data_def)

lemma fetch_obj_new_page:
  "sync_playwright b = None \<and> launch b = None \<and> new_page b = Some (Exception e) \<longrightarrow>
      fetch_seat_data b = ([Log ERROR (''Error fetching seat data: '' @ str_exc e)], Inr (counts_dict zero_counts))"
  by (simp add: fetch_body_def io_bind_def io_call_def fetch_seat_data_def)

lemma fetch_obj_headers:
  "sync_playwright b = None \<and> launch b = None \<and> new_page b = None \<and>
    set_extra_http_headers b = Some (Exception e) \<longrightarrow>
      fetch_seat_data b = ([Log ERROR (''Error fetching seat data: '' @ str_exc e)], Inr (counts_dict zero_counts))"
  by (simp add: fetch_body_def io_bind_def io_call_def fetch_seat_data_def)

lemma fetch_obj_goto:
  "sync_playwright b = None \<and> launch b = None \<and> new_page b = None \<and>
    set_extra_http_headers b = None \<and> goto b = Some (Exception e) \<longrightarrow>
      fetch_seat_data b = ([Log INFO (''Loading page: '' @ URL), Log ERROR (''Error fetching seat data: '' @ str_exc e)], Inr (counts_dict zero_counts))"
  by (simp add: fetch_body_def io_bind_def io_call_def io_log_def fetch_seat_data_def)

lemma fetch_obj_chart:
  "page_opened b \<and> wait_for_chart b selectors_to_try = (out1, Inl (Exception e)) \<longrightarrow>
      fetch_seat_data b = (Log INFO (''Loading page: '' @ URL) # out1 @ [Log ERROR (''Error fetching seat data: '' @ str_exc e)], Inr (counts_dict zero_counts))"
  by (simp add: page_opened_def fetch_body_def io_bind_def io_call_def io_log_def fetch_seat_data_def)

lemma fetch_obj_content:
  "page_opened b \<and> wait_for_chart b selectors_to_try = (out1, Inr loaded) \<and>
    probe_seats b seat_selectors (zero_counts, 0) = (out2, Inr st) \<and> snd st = 0 \<and>
    content b = Inl (Exception e) \<longrightarrow>
      fetch_seat_data b =
        (Log INFO (''Loading page: '' @ URL) # out1 @
         (if loaded then [] else [Log WARNING ''Could not find seating chart, trying to extract any available data...'']) @
         out2 @ [Log WARNING ''No seats found, attempting to get page content for debugging...'',
                 Log ERROR (''Error fetching seat data: '' @ str_exc e)], Inr (counts_dict zero_counts))"
  by (simp add: page_opened_def fetch_body_def io_bind_def io_call_def io_log_def io_return_def
        debug_page_content_def io_result_def fetch_seat_data_def del: str_nat.simps)

lemma fetch_obj_close:
  "page_opened b \<and> wait_for_chart b selectors_to_try = (out1, Inr loaded) \<and>
    probe_seats b seat_selectors (zero_counts, 0) = (out2, Inr st) \<and>
    (if snd st = 0 then debug_page_content b else io_return ()) = (out3, Inr ()) \<and>
    close b = Some (Exception e) \<longrightarrow>
      fetch_seat_data b =
        (Log INFO (''Loading page: '' @ URL) # out1 @
         (if loaded then [] else [Log WARNING ''Could not find seating chart, trying to extract any available data...'']) @
         out2 @ out3 @ [Log ERROR (''Error fetching seat data: '' @ str_exc e)], Inr (counts_dict zero_counts))"
  by (simp add: page_opened_def fetch_body_def io_bind_def io_call_def io_log_def io_return_def
        fetch_seat_data_def del: str_nat.simps)

lemma fetch_obj_success:
  "page_opened b \<and> wait_for_chart b selectors_to_try = (out1, Inr loaded) \<and>
    probe_seats b seat_selectors (zero_counts, 0) = (out2, Inr st) \<and>
    (if snd st = 0 then debug_page_content b else io_return ()) = (out3, Inr ()) \<and>
    close b = None \<longrightarrow>
      fetch_seat_data b =
        (Log INFO (''Loading page: '' @ URL) # out1 @
         (if loaded then [] else [Log WARNING ''Could not find seating chart, trying to extract any available data...'']) @
         out2 @ out3 @ [Log INFO (''Seat data extracted: '' @ py_repr (counts_dict (fst st)))],
         Inr (counts_dict (fst st)))"
  by (simp add: page_opened_def fetch_body_def io_bind_def io_call_def io_log_def io_return_def
        fetch_seat_data_def del: str_nat.simps)

lemma chart_obj_timeout:
  "wait_for_selector b s = Some (Exception (PlaywrightTimeoutError m)) \<longrightarrow>
      wait_for_chart b (s # rest) = wait_for_chart b rest"
  by simp

lemma chart_obj_other:
  "wait_for_selector b s = Some (Exception x) \<and> (\<forall>t. x \<noteq> PlaywrightTimeoutError t) \<longrightarrow>
      wait_for_chart b (s # rest) = ([], Inl (Exception x))"
  by (cases x) (simp_all add: io_raise_def)

lemma chart_obj_never:
  "snd (wait_for_chart b sels) \<noteq> Inl (Exception (PlaywrightTimeoutError m))"
  by (rule wait_for_chart_never_times_out)

lemma probe_obj_query:
  "query_selector_all b s = Inl (Exception x) \<longrightarrow>
      probe_seats b (s # rest) st0 =
        (Log DEBUG (''Error with selector '' @ s @ '': '' @ str_exc x) # fst (probe_seats b rest st0),
         snd (probe_seats b rest st0))"
  by (simp add: io_bind_def io_log_def split: prod.splits del: str_nat.simps)

lemma probe_obj_seat:
  "query_selector_all b s = Inr seats \<and> seats \<noteq> [] \<and>
    count_seats seats st0 = (st1, Some (Exception x)) \<longrightarrow>
      probe_seats b (s # rest) st0 =
        (Log INFO (''Found '' @ str_nat (length seats) @ '' elements with selector: '' @ s) #
         Log DEBUG (''Error with selector '' @ s @ '': '' @ str_exc x) # fst (probe_seats b rest st1),
         snd (probe_seats b rest st1))"
  by (simp add: io_bind_def io_log_def split: prod.splits del: str_nat.simps)

lemma probe_obj_never:
  "snd (probe_seats b sels st0) \<noteq> Inl (Exception e)"
  by (rule probe_seats_never_raises_Exception)

text \<open>
  C7 as amended: fetch never hands an \<open>Exception\<close> to its caller.  An \<open>Exception\<close>
  that leaves the body of the outer \<open>try\<close> is logged as an error, after the output
  made so far, and the zero counts are returned: so it is when starting Playwright,
  launching the browser, opening the page, setting the headers or the navigation fails,
  when the wait for the chart ends with an exception, when \<open>page.content()\<close> fails
  after no seat was found, and when \<open>browser.close()\<close> fails.  In the wait for the
  chart a timeout moves on to the next selector (so the wait never ends with a timeout)
  and any other \<open>Exception\<close> ends the wait.  In the loop over the seat selectors an
  \<open>Exception\<close> of the query or of a seat is handed to \<open>logger.debug\<close> and the loop
  goes on with the next selector, keeping what was counted before; no \<open>Exception\<close>
  leaves that loop.  When no call of the outer body fails, the counts found are returned.
\<close>

theorem fetch_exception_handling:
  "snd (fetch_seat_data b) \<noteq> Inl (Exception e) \<and>
   (snd (fetch_body b) = Inl (Exception e) \<longrightarrow>
      fetch_seat_data b = (fst (fetch_body b) @ [Log ERROR (''Error fetching seat data: '' @ str_exc e)], Inr (counts_dict zero_counts))) \<and>
   (sync_playwright b = Some (Exception e) \<longrightarrow>
      fetch_seat_data b = ([Log ERROR (''Error fetching seat data: '' @ str_exc e)], Inr (counts_dict zero_counts))) \<and>
   (sync_playwright b = None \<and> launch b = Some (Exception e) \<longrightarrow>
      fetch_seat_data b = ([Log ERROR (''Error fetching seat data: '' @ str_exc e)], Inr (counts_dict zero_counts))) \<and>
   (sync_playwright b = None \<and> launch b = None \<and> new_page b = Some (Exception e) \<longrightarrow>
      fetch_seat_data b = ([Log ERROR (''Error fetching seat data: '' @ str_exc e)], Inr (counts_dict zero_counts))) \<and>
   (sync_playwright b = None \<and> launch b = None \<and> new_page b = None \<and>
    set_extra_http_headers b = Some (Exception e) \<longrightarrow>
      fetch_seat_data b = ([Log ERROR (''Error fetching seat data: '' @ str_exc e)], Inr (counts_dict zero_counts))) \<and>
   (sync_playwright b = None \<and> launch b = None \<and> new_page b = None \<and>
    set_extra_http_headers b = None \<and> goto b = Some (Exception e) \<longrightarrow>
      fetch_seat_data b = ([Log INFO (''Loading page: '' @ URL), Log ERROR (''Error fetching seat data: '' @ str_exc e)], Inr (counts_dict zero_counts))) \<and>
   (page_opened b \<and> wait_for_chart b selectors_to_try = (out1, Inl (Exception e)) \<longrightarrow>
      fetch_seat_data b = (Log INFO (''Loading page: '' @ URL) # out1 @ [Log ERROR (''Error fetching seat data: '' @ str_exc e)], Inr (counts_dict zero_counts))) \<and>
   (page_opened b \<and> wait_for_chart b selectors_to_try = (out1, Inr loaded) \<and>
    probe_seats b seat_selectors (zero_counts, 0) = (out2, Inr st) \<and> snd st = 0 \<and>
    content b = Inl (Exception e) \<longrightarrow>
      fetch_seat_data b =
        (Log INFO (''Loading page: '' @ URL) # out1 @
         (if loaded then [] else [Log WARNING ''Could not find seating chart, trying to extract any available data...'']) @
         out2 @ [Log WARNING ''No seats found, attempting to get page content for debugging...'',
                 Log ERROR (''Error fetching seat data: '' @ str_exc e)], Inr (counts_dict zero_counts))) \<and>
   (page_opened b \<and> wait_for_chart b selectors_to_try = (out1, Inr loaded) \<and>
    probe_seats b seat_selectors (zero_counts, 0) = (out2, Inr st) \<and>
    (if snd st = 0 then debug_page_content b else io_return ()) = (out3, Inr ()) \<and>
    close b = Some (Exception e) \<longrightarrow>
      fetch_seat_data b =
        (Log INFO (''Loading page: '' @ URL) # out1 @
         (if loaded then [] else [Log WARNING ''Could not find seating chart, trying to extract any available data...'']) @
         out2 @ out3 @ [Log ERROR (''Error fetching seat data: '' @ str_exc e)], Inr (counts_dict zero_counts))) \<and>
   (page_opened b \<and> wait_for_chart b selectors_to_try = (out1, Inr loaded) \<and>
    probe_seats b seat_selectors (zero_counts, 0) = (out2, Inr st) \<and>
    (if snd st = 0 then debug_page_content b else io_return ()) = (out3, Inr ()) \<and>
    close b = None \<longrightarrow>
      fetch_seat_data b =
        (Log INFO (''Loading page: '' @ URL) # out1 @
         (if loaded then [] else [Log WARNING ''Could not find seating chart, trying to extract any available data...'']) @
         out2 @ out3 @ [Log INFO (''Seat data extracted: '' @ py_repr (counts_dict (fst st)))],
         Inr (counts_dict (fst st)))) \<and>
   (wait_for_selector b s = Some (Exception (PlaywrightTimeoutError m)) \<longrightarrow>
      wait_for_chart b (s # rest) = wait_for_chart b rest) \<and>
   (wait_for_selector b s = Some (Exception x) \<and> (\<forall>t. x \<noteq> PlaywrightTimeoutError t) \<longrightarrow>
      wait_for_chart b (s # rest) = ([], Inl (Exception x))) \<and>
   snd (wait_for_chart b sels) \<noteq> Inl (Exception (PlaywrightTimeoutError m)) \<and>
   (query_selector_all b s = Inl (Exception x) \<longrightarrow>
      probe_seats b (s # rest) st0 =
        (Log DEBUG (''Error with selector '' @ s @ '': '' @ str_exc x) # fst (probe_seats b rest st0),
         snd (probe_seats b rest st0))) \<and>
   (query_selector_all b s = Inr seats \<and> seats \<noteq> [] \<and>
    count_seats seats st0 = (st1, Some (Exception x)) \<longrightarrow>
      probe_seats b (s # rest) st0 =
        (Log INFO (''Found '' @ str_nat (length seats) @ '' elements with selector: '' @ s) #
         Log DEBUG (''Error with selector '' @ s @ '': '' @ str_exc x) # fst (probe_seats b rest st1),
         snd (probe_seats b rest st1))) \<and>
   snd (probe_seats b sels st0) \<noteq> Inl (Exception e)"
  by (intro conjI fetch_obj_never fetch_obj_body fetch_obj_sync fetch_obj_launch fetch_obj_new_page fetch_obj_headers fetch_obj_goto fetch_obj_chart fetch_obj_content fetch_obj_close fetch_obj_success chart_obj_timeout chart_obj_other chart_obj_never probe_obj_query probe_obj_seat probe_obj_never)


theorem fetch_exception_handling_witness:
  "fetch_seat_data navigation_timeout_browser =
     ([Log INFO (''Loading page: '' @ URL),
       Log ERROR ''Error fetching seat data: Timeout 30000ms exceeded.''],
      Inr (counts_dict zero_counts)) \<and>
   fetch_seat_data chart_error_browser =
     ([Log INFO (''Loading page: '' @ URL),
       Log ERROR ''Error fetching seat data: Target page has been closed''],
      Inr (counts_dict zero_counts)) \<and>
   fetch_seat_data content_error_browser =
     ([Log INFO (''Loading page: '' @ URL),
       Log INFO ''Found seating chart with selector: svg'',
       Log WARNING ''No seats found, attempting to get page content for debugging...'',
       Log ERROR ''Error fetching seat data: Target page has been closed''],
      Inr (counts_dict zero_counts)) \<and>
   fetch_seat_data close_error_browser =
     ([Log INFO (''Loading page: '' @ URL),
       Log INFO ''Found seating chart with selector: svg'',
       Log INFO ''Found 2 elements with selector: svg g[class*='seat']'',
       Log ERROR ''Error fetching seat data: Browser has been closed''],
      Inr (counts_dict zero_counts)) \<and>
   wait_for_chart selector_error_browser selectors_to_try =
     ([Log INFO ''Found seating chart with selector: [class*='seat']''], Inr True) \<and>
   probe_seats selector_error_browser seat_selectors (zero_counts, 0) =
     ([Log DEBUG ''Error with selector svg g[class*='seat']: Execution context was destroyed'',
       Log INFO ''Found 1 elements with selector: svg circle[class*='seat']''],
      Inr (\<lparr>yellow = 1, red = 0, grey = 0\<rparr>, 1)) \<and>
   probe_seats seat_error_browser seat_selectors (zero_counts, 0) =
     ([Log INFO ''Found 2 elements with selector: svg g[class*='seat']'',
       Log DEBUG ''Error with selector svg g[class*='seat']: Element is not attached to the DOM'',
       Log INFO ''Found 1 elements with selector: svg circle[class*='seat']''],
      Inr (\<lparr>yellow = 1, red = 0, grey = 1\<rparr>, 2))"
proof -
  have nav: "fetch_seat_data navigation_timeout_browser =
     ([Log INFO (''Loading page: '' @ URL),
       Log ERROR ''Error fetching seat data: Timeout 30000ms exceeded.''],
      Inr (counts_dict zero_counts))"
    using fetch_exception_handling
      [where b = navigation_timeout_browser
         and e = "PlaywrightTimeoutError ''Timeout 30000ms exceeded.''"]
    by (simp add: navigation_timeout_browser_def)
  have wch: "wait_for_chart chart_error_browser selectors_to_try =
               ([], Inl (Exception (OtherException ''Target page has been closed'')))"
    using fetch_exception_handling
      [where b = chart_error_browser and s = "''svg''" and rest = "tl selectors_to_try"
         and x = "OtherException ''Target page has been closed''"]
    by (simp add: chart_error_browser_def selectors_to_try_def)
  have chart: "fetch_seat_data chart_error_browser =
     ([Log INFO (''Loading page: '' @ URL),
       Log ERROR ''Error fetching seat data: Target page has been closed''],
      Inr (counts_dict zero_counts))"
    using fetch_exception_handling
      [where b = chart_error_browser and ?out1.0 = "[]"
         and e = "OtherException ''Target page has been closed''"] wch
    by (simp add: chart_error_browser_def page_opened_def)
  have wc: "wait_for_chart content_error_browser selectors_to_try =
              ([Log INFO ''Found seating chart with selector: svg''], Inr True)"
    by code_simp
  have pc: "probe_seats content_error_browser seat_selectors (zero_counts, 0) =
              ([], Inr (zero_counts, 0))"
    by code_simp
  have cont: "fetch_seat_data content_error_browser =
     ([Log INFO (''Loading page: '' @ URL),
       Log INFO ''Found seating chart with selector: svg'',
       Log WARNING ''No seats found, attempting to get page content for debugging...'',
       Log ERROR ''Error fetching seat data: Target page has been closed''],
      Inr (counts_dict zero_counts))"
    using fetch_exception_handling
      [where b = content_error_browser
         and ?out1.0 = "[Log INFO ''Found seating chart with selector: svg'']" and loaded = True
         and ?out2.0 = "[]" and st = "(zero_counts, 0)"
         and e = "OtherException ''Target page has been closed''"] wc pc
    by (simp add: content_error_browser_def page_opened_def)
  have wl: "wait_for_chart close_error_browser selectors_to_try =
              ([Log INFO ''Found seating chart with selector: svg''], Inr True)"
    by code_simp
  have pl: "probe_seats close_error_browser seat_selectors (zero_counts, 0) =
              ([Log INFO ''Found 2 elements with selector: svg g[class*='seat']''],
               Inr (\<lparr>yellow = 1, red = 0, grey = 1\<rparr>, 2))"
    by code_simp
  have clos: "fetch_seat_data close_error_browser =
     ([Log INFO (''Loading page: '' @ URL),
       Log INFO ''Found seating chart with selector: svg'',
       Log INFO ''Found 2 elements with selector: svg g[class*='seat']'',
       Log ERROR ''Error fetching seat data: Browser has been closed''],
      Inr (counts_dict zero_counts))"
    using fetch_exception_handling
      [where b = close_error_browser
         and ?out1.0 = "[Log INFO ''Found seating chart with selector: svg'']" and loaded = True
         and ?out2.0 = "[Log INFO ''Found 2 elements with selector: svg g[class*='seat']'']"
         and st = "(\<lparr>yellow = 1, red = 0, grey = 1\<rparr>, 2)" and ?out3.0 = "[]"
         and e = "OtherException ''Browser has been closed''"] wl pl
    by (simp add: close_error_browser_def page_opened_def io_return_def)
  have wrest: "wait_for_chart selector_error_browser (tl selectors_to_try) =
     ([Log INFO ''Found seating chart with selector: [class*='seat']''], Inr True)"
    by code_simp
  have wsel: "wait_for_chart selector_error_browser selectors_to_try =
     ([Log INFO ''Found seating chart with selector: [class*='seat']''], Inr True)"
    using fetch_exception_handling
      [where b = selector_error_browser and s = "''svg''" and rest = "tl selectors_to_try"
         and m = "''Timeout 10000ms exceeded.''"] wrest
    by (simp add: selector_error_browser_def selectors_to_try_def)
  have prest: "probe_seats selector_error_browser (tl seat_selectors) (zero_counts, 0) =
     ([Log INFO ''Found 1 elements with selector: svg circle[class*='seat']''],
      Inr (\<lparr>yellow = 1, red = 0, grey = 0\<rparr>, 1))"
    by code_simp
  have psel: "probe_seats selector_error_browser seat_selectors (zero_counts, 0) =
     ([Log DEBUG ''Error with selector svg g[class*='seat']: Execution context was destroyed'',
       Log INFO ''Found 1 elements with selector: svg circle[class*='seat']''],
      Inr (\<lparr>yellow = 1, red = 0, grey = 0\<rparr>, 1))"
    using fetch_exception_handling
      [where b = selector_error_browser and s = "''svg g[class*='seat']''"
         and rest = "tl seat_selectors" and ?st0.0 = "(zero_counts, 0)"
         and x = "OtherException ''Execution context was destroyed''"] prest
    by (simp add: selector_error_browser_def seat_selectors_def del: str_nat.simps)
  have cs: "count_seats [\<lparr>attr_fill = Inr (Some ''yellow''), attr_class = Inr None\<rparr>,
                        \<lparr>attr_fill = Inr (Some ''red''),
                         attr_class = Inl (Exception (OtherException ''Element is not attached to the DOM''))\<rparr>]
              (zero_counts, 0) =
            ((\<lparr>yellow = 1, red = 0, grey = 0\<rparr>, 1),
             Some (Exception (OtherException ''Element is not attached to the DOM'')))"
    by code_simp
  have srest: "probe_seats seat_error_browser (tl seat_selectors) (\<lparr>yellow = 1, red = 0, grey = 0\<rparr>, 1) =
     ([Log INFO ''Found 1 elements with selector: svg circle[class*='seat']''],
      Inr (\<lparr>yellow = 1, red = 0, grey = 1\<rparr>, 2))"
    by code_simp
  have two: "str_nat (Suc (Suc 0)) = ''2''" by code_simp
  have pseat: "probe_seats seat_error_browser seat_selectors (zero_counts, 0) =
     ([Log INFO ''Found 2 elements with selector: svg g[class*='seat']'',
       Log DEBUG ''Error with selector svg g[class*='seat']: Element is not attached to the DOM'',
       Log INFO ''Found 1 elements with selector: svg circle[class*='seat']''],
      Inr (\<lparr>yellow = 1, red = 0, grey = 1\<rparr>, 2))"
    using fetch_exception_handling
      [where b = seat_error_browser and s = "''svg g[class*='seat']''"
         and rest = "tl seat_selectors" and ?st0.0 = "(zero_counts, 0)"
         and seats = "[\<lparr>attr_fill = Inr (Some ''yellow''), attr_class = Inr None\<rparr>,
                        \<lparr>attr_fill = Inr (Some ''red''),
                         attr_class = Inl (Exception (OtherException ''Element is not attached to the DOM''))\<rparr>]"
         and ?st1.0 = "(\<lparr>yellow = 1, red = 0, grey = 0\<rparr>, 1)"
         and x = "OtherException ''Element is not attached to the DOM''"] cs srest two
    by (simp add: seat_error_browser_def seat_selectors_def del: str_nat.simps)
  show ?thesis
    using nav chart cont clos wsel psel pseat by (intro conjI)
qed

section \<open>The snapshot store\<close>

lemma load_holds:
  "load_previous_data (Holds v) = ([Log INFO (''Loaded previous data: '' @ py_str v)], Inr v)"
  by (simp add: load_previous_data_def io_bind_def io_log_def io_return_def)

text \<open>
  C8.  When the snapshot file is absent, and when opening or parsing it raises, load
  returns the zero snapshot and raises nothing.
\<close>

theorem load_absent_or_unreadable:
  "load_previous_data Missing =
     ([Log INFO ''No previous data file found, using defaults''], Inr (counts_dict zero_counts)) \<and>
   load_previous_data (Unreadable e) =
     ([Log ERROR (''Error loading previous data: '' @ str_exc e)], Inr (counts_dict zero_counts)) \<and>
   counts_dict zero_counts = PDict [(''yellow'', PInt 0), (''red'', PInt 0), (''grey'', PInt 0)]"
  by (simp add: load_previous_data_def io_bind_def io_log_def io_return_def counts_dict_def
      zero_counts_def)

text \<open>
  C9.  Saving a snapshot (a write that succeeds) and loading it again returns a
  dictionary that holds, under each of the three colours, what the saved snapshot held
  there.
\<close>

theorem save_then_load:
  "\<exists>v out. save_current_data iso_time stamp None (PDict kvs) d
              = (Holds v, ([Log INFO (''Saved current data: '' @ py_str (PDict kvs))], Inr ())) \<and>
     load_previous_data (Holds v) = (out, Inr v) \<and>
     py_getitem v ''yellow'' = py_getitem (PDict kvs) ''yellow'' \<and>
     py_getitem v ''red'' = py_getitem (PDict kvs) ''red'' \<and>
     py_getitem v ''grey'' = py_getitem (PDict kvs) ''grey''"
  by (simp add: save_current_data_def Let_def load_holds io_log_def py_getitem_def update_conv')

text \<open>
  C10.  When the file parses, load returns the parsed value as it is.  In particular a
  stored dictionary that lacks one of the three colours is returned lacking it: the
  result is not the zero snapshot, and reading the colour from it raises \<open>KeyError\<close>.
\<close>

theorem load_returns_parsed_value:
  "load_previous_data (Holds v) = ([Log INFO (''Loaded previous data: '' @ py_str v)], Inr v) \<and>
   (k \<in> {''yellow'', ''red'', ''grey''} \<and> map_of kvs k = None \<longrightarrow>
      snd (load_previous_data (Holds (PDict kvs))) = Inr (PDict kvs) \<and>
      PDict kvs \<noteq> counts_dict zero_counts \<and>
      py_getitem (PDict kvs) k = io_raise (Exception (KeyError k)))"
  by (auto simp: load_holds counts_dict_def zero_counts_def py_getitem_def)

theorem load_returns_parsed_value_witness:
  "snd (load_previous_data (Holds (PDict [(''yellow'', PInt 5), (''grey'', PInt 10)])))
      = Inr (PDict [(''yellow'', PInt 5), (''grey'', PInt 10)]) \<and>
   PDict [(''yellow'', PInt 5), (''grey'', PInt 10)] \<noteq> counts_dict zero_counts \<and>
   py_getitem (PDict [(''yellow'', PInt 5), (''grey'', PInt 10)]) ''red''
      = io_raise (Exception (KeyError ''red''))"
  using load_returns_parsed_value
    [of "PNone" "''red''" "[(''yellow'', PInt 5), (''grey'', PInt 10)]"]
  by simp

section \<open>The scheduler loop\<close>

text \<open>
  An \<open>Exception\<close> raised by a cycle leaves \<open>while True\<close>: the handler runs once, after
  the loop, and \<open>main\<close> returns whatever cycles the environment still had to offer.
\<close>

lemma main_leaves_loop_on_exception:
  assumes "cycle env d = (d', (out, Inl (Exception e)))"
  shows "main (env # rest) d =
     (d', [Log INFO ''Starting Eventim Seat Monitor'', Log INFO (''Monitoring URL: '' @ URL),
           Log INFO (''Check interval: '' @ hours @ '' hours'')] @ out @
          [Log ERROR (''Unexpected error in main loop: '' @ str_exc e),
           Print ([CHR 0x0A] @ [CHR 0xC3, CHR 0xA2, CHR 0xC5, CHR 0x92] @ '' Error occurred: ''
                    @ str_exc e),
           Print ''The script will continue monitoring...''],
      Returned)"
  using assms by (simp add: main_def)

lemma fetch_two_seats:
  "fetch_seat_data two_seat_browser =
     ([Log INFO (''Loading page: '' @ URL),
       Log INFO ''Found seating chart with selector: svg'',
       Log INFO ''Found 2 elements with selector: svg g[class*='seat']'',
       Log INFO ''Seat data extracted: {'yellow': 1, 'red': 0, 'grey': 1}''],
      Inr (PDict [(''yellow'', PInt 1), (''red'', PInt 0), (''grey'', PInt 1)]))"
  by code_simp

lemma summary_two_seats:
  "print_seat_summary ''2024-05-01 09:00:07''
       (PDict [(''yellow'', PInt 1), (''red'', PInt 0), (''grey'', PInt 1)]) =
     ([Print (CHR 0x0A # replicate 50 CHR ''=''),
       Print ([CHR 0xC4, CHR 0x9F, CHR 0xC5, CHR 0xB8, CHR 0xC2, CHR 0xAD]
                @ '' EVENTIM SEAT AVAILABILITY REPORT''),
       Print (replicate 50 CHR ''=''),
       Print ([CHR 0xC4, CHR 0x9F, CHR 0xC5, CHR 0xB8, CHR 0xC5, CHR 0xB8, CHR 0xC2, CHR 0xA1]
                @ '' Yellow (Available): 1''),
       Print ([CHR 0xC4, CHR 0x9F, CHR 0xC5, CHR 0xB8, CHR 0xE2, CHR 0x80, CHR 0x9D, CHR 0xC2,
               CHR 0xB4] @ '' Red (Premium Available): 0''),
       Print ([CHR 0xC3, CHR 0xA2, CHR 0xC5, CHR 0xA1, CHR 0xC2, CHR 0xAB] @ '' Sold (Grey): 1''),
       Print ([CHR 0xC4, CHR 0x9F, CHR 0xC5, CHR 0xB8, CHR 0xE2, CHR 0x80, CHR 0x9C, CHR 0xE2,
               CHR 0x80, CHR 0xA6] @ '' Check Time: 2024-05-01 09:00:07''),
       Print (replicate 50 CHR ''='')],
      Inr ())"
  by code_simp

lemma repr_str_yellow: "repr_str ''yellow'' = [CHR 0x27] @ ''yellow'' @ [CHR 0x27]"
  by code_simp

lemma compare_missing_key:
  "compare_and_notify (PDict [(''yellow'', PInt 1), (''red'', PInt 0), (''grey'', PInt 1)]) (PDict [])
     = ([], Inl (Exception (KeyError ''yellow'')))"
  by (simp add: compare_and_notify_def py_getitem_def io_bind_def io_return_def io_raise_def)

lemma cycle_missing_key:
  "cycle quiet_cycle (Holds (PDict [])) =
     (Holds (PDict []),
      ([Print ([CHR 0x0A] @ [CHR 0xC4, CHR 0x9F, CHR 0xC5, CHR 0xB8, CHR 0xE2, CHR 0x80, CHR 0x9D]
                 @ '' Checking seat availability at 2024-05-01 09:00:00''),
        Log INFO (''Loading page: '' @ URL),
        Log INFO ''Found seating chart with selector: svg'',
        Log INFO ''Found 2 elements with selector: svg g[class*='seat']'',
        Log INFO ''Seat data extracted: {'yellow': 1, 'red': 0, 'grey': 1}'',
        Log INFO ''Loaded previous data: {}'',
        Print (CHR 0x0A # replicate 50 CHR ''=''),
        Print ([CHR 0xC4, CHR 0x9F, CHR 0xC5, CHR 0xB8, CHR 0xC2, CHR 0xAD]
                 @ '' EVENTIM SEAT AVAILABILITY REPORT''),
        Print (replicate 50 CHR ''=''),
        Print ([CHR 0xC4, CHR 0x9F, CHR 0xC5, CHR 0xB8, CHR 0xC5, CHR 0xB8, CHR 0xC2, CHR 0xA1]
                 @ '' Yellow (Available): 1''),
        Print ([CHR 0xC4, CHR 0x9F, CHR 0xC5, CHR 0xB8, CHR 0xE2, CHR 0x80, CHR 0x9D, CHR 0xC2,
                CHR 0xB4] @ '' Red (Premium Available): 0''),
        Print ([CHR 0xC3, CHR 0xA2, CHR 0xC5, CHR 0xA1, CHR 0xC2, CHR 0xAB] @ '' Sold (Grey): 1''),
        Print ([CHR 0xC4, CHR 0x9F, CHR 0xC5, CHR 0xB8, CHR 0xE2, CHR 0x80, CHR 0x9C, CHR 0xE2,
                CHR 0x80, CHR 0xA6] @ '' Check Time: 2024-05-01 09:00:07''),
        Print (replicate 50 CHR ''='')],
       Inl (Exception (KeyError ''yellow''))))"
  by (simp add: cycle_def cycle_front_def quiet_cycle_def fetch_two_seats summary_two_seats
        compare_missing_key load_previous_data_def io_bind_def io_print_def io_log_def
        io_return_def py_str_def)

text \<open>
  For contrast: a cycle that raises nothing leaves the loop running.  On the first run,
  with no snapshot file, the cycle saves the counts and the loop goes on.
\<close>

lemma compare_first_run:
  "compare_and_notify (PDict [(''yellow'', PInt 1), (''red'', PInt 0), (''grey'', PInt 1)])
      (counts_dict zero_counts)
     = ([Print (change_line ''Yellow'' 1), Print (change_line ''Sold (grey)'' 1)], Inr ())"
  using compare_output [of "[(''yellow'', PInt 1), (''red'', PInt 0), (''grey'', PInt 1)]" 1 0 1
      "[(''yellow'', PInt 0), (''red'', PInt 0), (''grey'', PInt 0)]" 0 0 0]
  by (simp add: counts_dict_def zero_counts_def)

lemma cycle_first_run:
  "\<exists>out. cycle quiet_cycle Missing =
     (Holds (PDict [(''yellow'', PInt 1), (''red'', PInt 0), (''grey'', PInt 1),
                    (''timestamp'', PStr ''2024-05-01T09:00:07.120000''),
                    (''last_check'', PStr ''2024-05-01 09:00:07'')]), (out, Inr ()))"
  by (simp add: cycle_def cycle_front_def cycle_wait_def quiet_cycle_def fetch_two_seats
        summary_two_seats compare_first_run load_previous_data_def save_current_data_def
        io_bind_def io_print_def io_log_def io_return_def io_call_def)

lemma main_first_run: "snd (snd (main [quiet_cycle] Missing)) = Running"
proof -
  obtain out where "cycle quiet_cycle Missing =
     (Holds (PDict [(''yellow'', PInt 1), (''red'', PInt 0), (''grey'', PInt 1),
                    (''timestamp'', PStr ''2024-05-01T09:00:07.120000''),
                    (''last_check'', PStr ''2024-05-01 09:00:07'')]), (out, Inr ()))"
    using cycle_first_run by blast
  then show ?thesis by (simp add: main_def)
qed

text \<open>
  C2.  The claim: an exception raised inside one cycle is logged and swallowed, and the
  loop goes on to the next cycle.  The snapshot file holds \<open>{}\<close>: load returns it as it
  is, compare_and_notify raises \<open>KeyError('yellow')\<close>, and the exception leaves the loop.
  With two cycles on offer, \<open>main\<close> runs the first up to the exception, logs the error,
  prints that the script will continue monitoring, and returns: the second cycle is
  never begun.
\<close>

theorem main_returns_after_failed_cycle:
  "main [quiet_cycle, quiet_cycle] (Holds (PDict [])) =
     (Holds (PDict []),
      [Log INFO ''Starting Eventim Seat Monitor'',
       Log INFO (''Monitoring URL: '' @ URL),
       Log INFO ''Check interval: 3.0 hours'',
       Print ([CHR 0x0A] @ [CHR 0xC4, CHR 0x9F, CHR 0xC5, CHR 0xB8, CHR 0xE2, CHR 0x80, CHR 0x9D]
                @ '' Checking seat availability at 2024-05-01 09:00:00''),
       Log INFO (''Loading page: '' @ URL),
       Log INFO ''Found seating chart with selector: svg'',
       Log INFO ''Found 2 elements with selector: svg g[class*='seat']'',
       Log INFO ''Seat data extracted: {'yellow': 1, 'red': 0, 'grey': 1}'',
       Log INFO ''Loaded previous data: {}'',
       Print (CHR 0x0A # replicate 50 CHR ''=''),
       Print ([CHR 0xC4, CHR 0x9F, CHR 0xC5, CHR 0xB8, CHR 0xC2, CHR 0xAD]
                @ '' EVENTIM SEAT AVAILABILITY REPORT''),
       Print (replicate 50 CHR ''=''),
       Print ([CHR 0xC4, CHR 0x9F, CHR 0xC5, CHR 0xB8, CHR 0xC5, CHR 0xB8, CHR 0xC2, CHR 0xA1]
                @ '' Yellow (Available): 1''),
       Print ([CHR 0xC4, CHR 0x9F, CHR 0xC5, CHR 0xB8, CHR 0xE2, CHR 0x80, CHR 0x9D, CHR 0xC2,
               CHR 0xB4] @ '' Red (Premium Available): 0''),
       Print ([CHR 0xC3, CHR 0xA2, CHR 0xC5, CHR 0xA1, CHR 0xC2, CHR 0xAB] @ '' Sold (Grey): 1''),
       Print ([CHR 0xC4, CHR 0x9F, CHR 0xC5, CHR 0xB8, CHR 0xE2, CHR 0x80, CHR 0x9C, CHR 0xE2,
               CHR 0x80, CHR 0xA6] @ '' Check Time: 2024-05-01 09:00:07''),
       Print (replicate 50 CHR ''=''),
       Log ERROR (''Unexpected error in main loop: 'yellow'' @ [CHR 0x27]),
       Print ([CHR 0x0A] @ [CHR 0xC3, CHR 0xA2, CHR 0xC5, CHR 0x92] @ '' Error occurred: 'yellow'' @ [CHR 0x27]),
       Print ''The script will continue monitoring...''],
      Returned)"
  using main_leaves_loop_on_exception [OF cycle_missing_key, of "[quiet_cycle]"]
  by (simp add: hours_def repr_str_yellow)

end
